theory Spec2Isabelle
  imports Complex_Main "HOL-Library.AList"
begin

section \<open>TailingsIQ API gateway (src/main.py): values, exceptions, store\<close>

text \<open>
  The handlers of \<^verbatim>\<open>main.py\<close> build Python dictionaries, hand them to a MongoDB
  collection and return dictionaries. The model keeps that shape: a dictionary is an
  association list in insertion order, a handler is a function from its arguments, the
  clock readings it takes and the store to either the exception it raises (\<open>Inl\<close>) or
  the value it returns together with the store it leaves (\<open>Inr\<close>).

  Timestamps are Python floats. The handlers compare them, pass them through and, in one
  place each, subtract a constant and truncate to an integer; they are modelled by the
  reals they denote (NaN and the infinities are left out).
\<close>

type_synonym object_id = string
  \<comment> \<open>a BSON ObjectId, represented by its \<^verbatim>\<open>str()\<close> rendering\<close>

datatype py =
    PyNone
  | PyBool bool
  | PyInt int
  | PyFloat real
  | PyStr string
  | PyList "py list"
  | PyDict "(string \<times> py) list"
  | PyObjectId object_id

type_synonym py_dict = "(string \<times> py) list"

datatype exn =
    HTTPException nat string
    \<comment> \<open>\<^verbatim>\<open>HTTPException(status_code, detail)\<close>\<close>
  | InvalidId string
    \<comment> \<open>\<^verbatim>\<open>bson.errors.InvalidId\<close>, raised by \<^verbatim>\<open>ObjectId(s)\<close>\<close>
  | PyMongoError string
    \<comment> \<open>any exception the driver raises while talking to the store\<close>

text \<open>
  \<^verbatim>\<open>except Exception as e: raise HTTPException(status_code=400, detail=str(e))\<close>,
  the clause that closes every handler's \<^verbatim>\<open>try\<close> block. \<^verbatim>\<open>HTTPException\<close> is itself a
  subclass of \<^verbatim>\<open>Exception\<close>, so the clause catches every constructor of \<open>exn\<close>.
  \<open>str_exc\<close> is Python's \<^verbatim>\<open>str\<close> on exceptions; its text is the libraries' business and
  the handlers take it as a parameter.
\<close>

definition except_Exception :: "(exn \<Rightarrow> string) \<Rightarrow> exn + 'a \<Rightarrow> exn + 'a" where
  "except_Exception str_exc body =
     (case body of
        Inl e \<Rightarrow> Inl (HTTPException 400 (str_exc e))
      | Inr v \<Rightarrow> Inr v)"

subsection \<open>The document store\<close>

text \<open>
  \<^verbatim>\<open>database = client.tailingsiq\<close> with its four collections. A stored document has the
  \<^verbatim>\<open>_id\<close> the driver gave it and the fields it was inserted with. A collection is the
  list of its documents in insertion order, which is the order an unsorted \<^verbatim>\<open>find\<close>
  walks them in.
\<close>

record mongo_doc =
  doc_id :: object_id
  doc_fields :: py_dict

record database =
  facilities :: "mongo_doc list"
  documents :: "mongo_doc list"
  monitoring :: "mongo_doc list"
  assessments :: "mongo_doc list"

text \<open>The dictionary a cursor yields for a stored document.\<close>

definition to_dict :: "mongo_doc \<Rightarrow> py_dict" where
  "to_dict d = (''_id'', PyObjectId (doc_id d)) # doc_fields d"

text \<open>
  \<^verbatim>\<open>await collection.insert_one(doc)\<close>. \<open>reply\<close> is what the driver and the store do
  with the call: raise, or accept the document under a fresh \<^verbatim>\<open>_id\<close>. On acceptance
  the driver has added \<^verbatim>\<open>_id\<close> to the caller's dictionary, and the result carries
  \<^verbatim>\<open>inserted_id\<close>, that dictionary and the collection.
\<close>

definition insert_one ::
  "exn + object_id \<Rightarrow> py_dict \<Rightarrow> mongo_doc list \<Rightarrow> exn + (object_id \<times> py_dict \<times> mongo_doc list)" where
  "insert_one reply doc coll =
     (case reply of
        Inl e \<Rightarrow> Inl e
      | Inr inserted_id \<Rightarrow>
          Inr (inserted_id,
               AList.update ''_id'' (PyObjectId inserted_id) doc,
               coll @ [\<lparr>doc_id = inserted_id, doc_fields = doc\<rparr>]))"


definition find_one :: "exn option \<Rightarrow> (py_dict \<Rightarrow> bool) \<Rightarrow> mongo_doc list \<Rightarrow> exn + mongo_doc option" where
  "find_one fault query coll =
     (case fault of
        Some e \<Rightarrow> Inl e
      | None \<Rightarrow> Inr (List.find (\<lambda>d. query (to_dict d)) coll))"

text \<open>The query \<^verbatim>\<open>{"_id": oid}\<close>.\<close>

definition id_query :: "object_id \<Rightarrow> py_dict \<Rightarrow> bool" where
  "id_query oid d = (map_of d ''_id'' = Some (PyObjectId oid))"


text \<open>
  \<^verbatim>\<open>doc["id"] = str(doc["_id"]); del doc["_id"]\<close> on the dictionary of a stored
  document: the fields, with \<^verbatim>\<open>id\<close> set to the rendering of \<^verbatim>\<open>_id\<close>.
\<close>

definition expose_id :: "mongo_doc \<Rightarrow> py_dict" where
  "expose_id d =
     AList.delete ''_id'' (AList.update ''id'' (PyStr (doc_id d)) (to_dict d))"

section \<open>Authentication\<close>

record OAuth2PasswordRequestForm =
  username :: string
  password :: string

definition login_for_access_token :: "OAuth2PasswordRequestForm \<Rightarrow> exn + py_dict" where
  "login_for_access_token form_data =
     (if username form_data = ''demo'' \<and> password form_data = ''demo''
      then Inr [(''access_token'', PyStr ''demo_token_12345''),
                (''token_type'', PyStr ''bearer'')]
      else Inl (HTTPException 401 ''Incorrect username or password''))"

section \<open>Facility and document lookup\<close>

text \<open>
  \<open>ObjectId\<close> is the constructor \<^verbatim>\<open>bson.ObjectId(s)\<close>: it raises \<^verbatim>\<open>InvalidId\<close> on a
  string that is no object id.
\<close>

definition get_facility ::
  "(exn \<Rightarrow> string) \<Rightarrow> (string \<Rightarrow> exn + object_id) \<Rightarrow> exn option \<Rightarrow> database \<Rightarrow> string \<Rightarrow> exn + py_dict" where
  "get_facility str_exc ObjectId fault db path_id =
     except_Exception str_exc
       (case ObjectId path_id of
          Inl e \<Rightarrow> Inl e
        | Inr oid \<Rightarrow>
            (case find_one fault (id_query oid) (facilities db) of
               Inl e \<Rightarrow> Inl e
             | Inr None \<Rightarrow> Inl (HTTPException 404 ''Facility not found'')
             | Inr (Some facility) \<Rightarrow> Inr (expose_id facility)))"

definition get_document ::
  "(exn \<Rightarrow> string) \<Rightarrow> (string \<Rightarrow> exn + object_id) \<Rightarrow> exn option \<Rightarrow> database \<Rightarrow> string \<Rightarrow> exn + py_dict" where
  "get_document str_exc ObjectId fault db path_id =
     except_Exception str_exc
       (case ObjectId path_id of
          Inl e \<Rightarrow> Inl e
        | Inr oid \<Rightarrow>
            (case find_one fault (id_query oid) (documents db) of
               Inl e \<Rightarrow> Inl e
             | Inr None \<Rightarrow> Inl (HTTPException 404 ''Document not found'')
             | Inr (Some document) \<Rightarrow> Inr (expose_id document)))"

section \<open>Monitoring\<close>

record MonitoringData =
  facility_id :: string
  timestamp :: real
  readings :: py_dict



text \<open>
  \<open>path_id\<close> is the \<^verbatim>\<open>facility_id\<close> of the path, \<open>data\<close> the request body, \<open>now\<close> the
  clock reading stored as \<^verbatim>\<open>created_at\<close>.
\<close>

definition add_monitoring_data ::
  "(exn \<Rightarrow> string) \<Rightarrow> exn + object_id \<Rightarrow> real \<Rightarrow> database \<Rightarrow> string \<Rightarrow> MonitoringData
     \<Rightarrow> exn + (py_dict \<times> database)" where
  "add_monitoring_data str_exc reply now db path_id data =
     except_Exception str_exc
       (let monitoring_doc =
              [(''facility_id'', PyStr path_id),
               (''timestamp'', PyFloat (timestamp data)),
               (''readings'', PyDict (readings data)),
               (''created_at'', PyFloat now)]
        in case insert_one reply monitoring_doc (monitoring db) of
             Inl e \<Rightarrow> Inl e
           | Inr (inserted_id, monitoring_doc', coll) \<Rightarrow>
               Inr (AList.update ''id'' (PyStr inserted_id) monitoring_doc',
                    db\<lparr>monitoring := coll\<rparr>))"

section \<open>Risk assessment\<close>

text \<open>
  \<^verbatim>\<open>int(x)\<close> on a float truncates towards zero; \<^verbatim>\<open>f"{n}"\<close> writes an integer in
  decimal.
\<close>

definition py_int :: "real \<Rightarrow> int" where
  "py_int x = (if 0 \<le> x then \<lfloor>x\<rfloor> else \<lceil>x\<rceil>)"

fun str_nat :: "nat \<Rightarrow> string" where
  "str_nat n =
     (if n < 10 then [''0123456789'' ! n]
      else str_nat (n div 10) @ [''0123456789'' ! (n mod 10)])"

declare str_nat.simps [simp del]

definition str_int :: "int \<Rightarrow> string" where
  "str_int i = (if i < 0 then CHR ''-'' # str_nat (nat (- i)) else str_nat (nat i))"

text \<open>
  \<open>now1\<close> is the clock reading behind \<^verbatim>\<open>assessment_id\<close>, \<open>now2\<close> the one stored as
  \<^verbatim>\<open>timestamp\<close>. The handler reads neither the facility nor the monitoring collection.
\<close>

definition assess_facility_risk ::
  "(exn \<Rightarrow> string) \<Rightarrow> exn + object_id \<Rightarrow> real \<Rightarrow> real \<Rightarrow> database \<Rightarrow> string
     \<Rightarrow> exn + (py_dict \<times> database)" where
  "assess_facility_risk str_exc reply now1 now2 db path_id =
     except_Exception str_exc
       (let assessment =
              [(''facility_id'', PyStr path_id),
               (''assessment_id'', PyStr (''assessment_'' @ str_int (py_int now1))),
               (''timestamp'', PyFloat now2),
               (''overall_risk_level'', PyStr ''medium''),
               (''risk_score'', PyInt 65),
               (''summary'', PyStr ''Automated risk assessment completed''),
               (''risk_factors'', PyList
                  [PyDict [(''category'', PyStr ''structural''),
                           (''severity'', PyStr ''medium''),
                           (''description'', PyStr ''Foundation stability'')],
                   PyDict [(''category'', PyStr ''environmental''),
                           (''severity'', PyStr ''low''),
                           (''description'', PyStr ''Water quality impact'')]]),
               (''recommendations'', PyList
                  [PyStr ''Increase monitoring frequency'',
                   PyStr ''Schedule structural inspection'',
                   PyStr ''Review environmental controls''])]
        in case insert_one reply assessment (assessments db) of
             Inl e \<Rightarrow> Inl e
           | Inr (inserted_id, assessment', coll) \<Rightarrow>
               Inr (AList.update ''id'' (PyStr inserted_id) assessment',
                    db\<lparr>assessments := coll\<rparr>))"

section \<open>Notions of the specification\<close>

text \<open>
  The specification's risk band of a score: low below 34, medium from 34 to 66, high
  above 66. The source has no such function; the band is written here from the
  specification's words, to compare the handler's payload with it.
\<close>

definition spec_risk_band :: "int \<Rightarrow> string" where
  "spec_risk_band score =
     (if score < 34 then ''low'' else if score \<le> 66 then ''medium'' else ''high'')"


text \<open>
  The specification's active facility: the identifier names a stored facility whose
  \<^verbatim>\<open>status\<close> is \<^verbatim>\<open>active\<close>.
\<close>

definition spec_active_facility :: "database \<Rightarrow> string \<Rightarrow> bool" where
  "spec_active_facility db path_id =
     list_ex (\<lambda>d. doc_id d = path_id \<and> map_of (doc_fields d) ''status'' = Some (PyStr ''active''))
       (facilities db)"



section \<open>Properties\<close>

subsection \<open>What a call to \<open>add_monitoring_data\<close> computes\<close>


lemma add_monitoring_data_accepted:
  "add_monitoring_data str_exc (Inr oid) now db path_id data =
     Inr ([(''facility_id'', PyStr path_id),
           (''timestamp'', PyFloat (timestamp data)),
           (''readings'', PyDict (readings data)),
           (''created_at'', PyFloat now),
           (''_id'', PyObjectId oid),
           (''id'', PyStr oid)],
          db\<lparr>monitoring := monitoring db @
             [\<lparr>doc_id = oid,
               doc_fields = [(''facility_id'', PyStr path_id),
                             (''timestamp'', PyFloat (timestamp data)),
                             (''readings'', PyDict (readings data)),
                             (''created_at'', PyFloat now)]\<rparr>]\<rparr>)"
  by (simp add: add_monitoring_data_def insert_one_def except_Exception_def)

lemma add_monitoring_data_refused:
  "add_monitoring_data str_exc (Inl e) now db path_id data = Inl (HTTPException 400 (str_exc e))"
  by (simp add: add_monitoring_data_def insert_one_def except_Exception_def)

lemma add_monitoring_data_raises:
  "add_monitoring_data str_exc reply now db path_id data = Inl err \<Longrightarrow>
     \<exists>e. reply = Inl e \<and> err = HTTPException 400 (str_exc e)"
  by (cases reply) (simp_all add: add_monitoring_data_refused add_monitoring_data_accepted)

subsection \<open>Authentication\<close>

text \<open>
  C6. The token endpoint returns the access token exactly when the submitted username is
  \<^verbatim>\<open>demo\<close> and the submitted password is \<^verbatim>\<open>demo\<close>; for every other pair it raises
  \<^verbatim>\<open>HTTPException\<close> with status 401 and returns no token.
\<close>

theorem login_accepts_only_demo:
  "(login_for_access_token form_data =
      Inr [(''access_token'', PyStr ''demo_token_12345''), (''token_type'', PyStr ''bearer'')])
     = (username form_data = ''demo'' \<and> password form_data = ''demo'')
   \<and> (login_for_access_token form_data = Inl (HTTPException 401 ''Incorrect username or password''))
     = (\<not> (username form_data = ''demo'' \<and> password form_data = ''demo''))
   \<and> isl (login_for_access_token form_data)
     = (\<not> (username form_data = ''demo'' \<and> password form_data = ''demo''))"
  by (simp add: login_for_access_token_def)

subsection \<open>Ingest of monitoring readings\<close>

text \<open>
  C10. The facility identifier stored with a reading is the path parameter: the document
  appended to the monitoring collection and the response both carry the path's
  identifier, and changing the \<^verbatim>\<open>facility_id\<close> of the request body changes nothing.
\<close>

theorem add_monitoring_data_stores_path_id:
  "add_monitoring_data str_exc reply now db path_id data = Inr (resp, db') \<Longrightarrow>
     butlast (monitoring db') = monitoring db \<and>
     map_of (doc_fields (last (monitoring db'))) ''facility_id'' = Some (PyStr path_id) \<and>
     map_of resp ''facility_id'' = Some (PyStr path_id) \<and>
     add_monitoring_data str_exc reply now db path_id (data\<lparr>facility_id := other\<rparr>) = Inr (resp, db')"
  by (cases reply) (auto simp: add_monitoring_data_refused add_monitoring_data_accepted)

theorem add_monitoring_data_stores_path_id_witness:
  "add_monitoring_data (\<lambda>e. ''error'') (Inr ''65f000000000000000000001'') 1000
       \<lparr>facilities = [], documents = [], monitoring = [], assessments = []\<rparr> ''facility-A''
       \<lparr>facility_id = ''facility-B'', timestamp = 990, readings = [(''pore-pressure'', PyFloat 10)]\<rparr>
     = Inr ([(''facility_id'', PyStr ''facility-A''),
             (''timestamp'', PyFloat 990),
             (''readings'', PyDict [(''pore-pressure'', PyFloat 10)]),
             (''created_at'', PyFloat 1000),
             (''_id'', PyObjectId ''65f000000000000000000001''),
             (''id'', PyStr ''65f000000000000000000001'')],
            \<lparr>facilities = [], documents = [],
             monitoring = [\<lparr>doc_id = ''65f000000000000000000001'',
                            doc_fields = [(''facility_id'', PyStr ''facility-A''),
                                          (''timestamp'', PyFloat 990),
                                          (''readings'', PyDict [(''pore-pressure'', PyFloat 10)]),
                                          (''created_at'', PyFloat 1000)]\<rparr>],
             assessments = []\<rparr>)
   \<and> map_of (doc_fields (last (monitoring
        \<lparr>facilities = [], documents = [],
         monitoring = [\<lparr>doc_id = ''65f000000000000000000001'',
                        doc_fields = [(''facility_id'', PyStr ''facility-A''),
                                      (''timestamp'', PyFloat 990),
                                      (''readings'', PyDict [(''pore-pressure'', PyFloat 10)]),
                                      (''created_at'', PyFloat 1000)]\<rparr>],
         assessments = []\<rparr>))) ''facility_id'' = Some (PyStr ''facility-A'')"
proof -
  have run: "add_monitoring_data (\<lambda>e. ''error'') (Inr ''65f000000000000000000001'') 1000
       \<lparr>facilities = [], documents = [], monitoring = [], assessments = []\<rparr> ''facility-A''
       \<lparr>facility_id = ''facility-B'', timestamp = 990, readings = [(''pore-pressure'', PyFloat 10)]\<rparr>
     = Inr ([(''facility_id'', PyStr ''facility-A''),
             (''timestamp'', PyFloat 990),
             (''readings'', PyDict [(''pore-pressure'', PyFloat 10)]),
             (''created_at'', PyFloat 1000),
             (''_id'', PyObjectId ''65f000000000000000000001''),
             (''id'', PyStr ''65f000000000000000000001'')],
            \<lparr>facilities = [], documents = [],
             monitoring = [\<lparr>doc_id = ''65f000000000000000000001'',
                            doc_fields = [(''facility_id'', PyStr ''facility-A''),
                                          (''timestamp'', PyFloat 990),
                                          (''readings'', PyDict [(''pore-pressure'', PyFloat 10)]),
                                          (''created_at'', PyFloat 1000)]\<rparr>],
             assessments = []\<rparr>)"
    by (simp add: add_monitoring_data_def insert_one_def except_Exception_def)
  from add_monitoring_data_stores_path_id [OF run] run show ?thesis by blast
qed

text \<open>
  C1, as stated, fails: a reading stamped ten minutes after the ingestion time is
  accepted, and the monitoring collection holds it afterwards.
\<close>

theorem future_reading_is_stored:
  "(1000::real) + 300 < 1600 \<and>
   add_monitoring_data (\<lambda>e. ''error'') (Inr ''65f000000000000000000001'') 1000
       \<lparr>facilities = [], documents = [], monitoring = [], assessments = []\<rparr> ''facility-A''
       \<lparr>facility_id = ''facility-A'', timestamp = 1600, readings = [(''pore-pressure'', PyFloat 10)]\<rparr>
     = Inr ([(''facility_id'', PyStr ''facility-A''),
             (''timestamp'', PyFloat 1600),
             (''readings'', PyDict [(''pore-pressure'', PyFloat 10)]),
             (''created_at'', PyFloat 1000),
             (''_id'', PyObjectId ''65f000000000000000000001''),
             (''id'', PyStr ''65f000000000000000000001'')],
            \<lparr>facilities = [], documents = [],
             monitoring = [\<lparr>doc_id = ''65f000000000000000000001'',
                            doc_fields = [(''facility_id'', PyStr ''facility-A''),
                                          (''timestamp'', PyFloat 1600),
                                          (''readings'', PyDict [(''pore-pressure'', PyFloat 10)]),
                                          (''created_at'', PyFloat 1000)]\<rparr>],
             assessments = []\<rparr>)"
  by (simp add: add_monitoring_data_def insert_one_def except_Exception_def)

text \<open>
  C1, amended. \<open>add_monitoring_data\<close> checks no timestamp. For a reading stamped more than
  five minutes after the ingestion time, when the store accepts the insert the call
  succeeds and the monitoring collection gains exactly one document, which carries that
  timestamp; the only failure is the store's own exception, answered with status 400.
\<close>

theorem add_monitoring_data_checks_no_timestamp:
  "now + 300 < timestamp data \<Longrightarrow>
     (\<exists>resp db'. add_monitoring_data str_exc (Inr oid) now db path_id data = Inr (resp, db') \<and>
        butlast (monitoring db') = monitoring db \<and>
        doc_id (last (monitoring db')) = oid \<and>
        map_of (doc_fields (last (monitoring db'))) ''timestamp'' = Some (PyFloat (timestamp data))) \<and>
     add_monitoring_data str_exc (Inl e) now db path_id data = Inl (HTTPException 400 (str_exc e))"
  by (simp add: add_monitoring_data_refused add_monitoring_data_accepted)

theorem add_monitoring_data_checks_no_timestamp_witness:
  "(1000::real) + 300 < 1600 \<and>
   (\<exists>resp db'. add_monitoring_data (\<lambda>e. ''error'') (Inr ''65f000000000000000000001'') 1000
        \<lparr>facilities = [], documents = [], monitoring = [], assessments = []\<rparr> ''facility-A''
        \<lparr>facility_id = ''facility-A'', timestamp = 1600, readings = []\<rparr> = Inr (resp, db') \<and>
      map_of (doc_fields (last (monitoring db'))) ''timestamp'' = Some (PyFloat 1600))"
proof -
  have h: "(1000::real) + 300
      < timestamp \<lparr>facility_id = ''facility-A'', timestamp = 1600, readings = []\<rparr>"
    by simp
  from add_monitoring_data_checks_no_timestamp [OF h, of "\<lambda>e. ''error''" "''65f000000000000000000001''"
      "\<lparr>facilities = [], documents = [], monitoring = [], assessments = []\<rparr>" "''facility-A''"
      "PyMongoError ''unreachable''"]
  show ?thesis by auto
qed

text \<open>
  C4, as stated, fails: a reading for a facility whose stored status is
  \<^verbatim>\<open>decommissioned\<close> is accepted and stored.
\<close>

theorem decommissioned_facility_reading_is_stored:
  "\<not> spec_active_facility
       \<lparr>facilities = [\<lparr>doc_id = ''65f0000000000000000000aa'',
                        doc_fields = [(''name'', PyStr ''North dam''),
                                      (''location'', PyStr ''Pit 3''),
                                      (''type'', PyStr ''tailings-dam''),
                                      (''owner'', PyStr ''ACME''),
                                      (''status'', PyStr ''decommissioned''),
                                      (''created_at'', PyFloat 500),
                                      (''updated_at'', PyFloat 500)]\<rparr>],
        documents = [], monitoring = [], assessments = []\<rparr>
       ''65f0000000000000000000aa'' \<and>
   add_monitoring_data (\<lambda>e. ''error'') (Inr ''65f000000000000000000001'') 1000
       \<lparr>facilities = [\<lparr>doc_id = ''65f0000000000000000000aa'',
                        doc_fields = [(''name'', PyStr ''North dam''),
                                      (''location'', PyStr ''Pit 3''),
                                      (''type'', PyStr ''tailings-dam''),
                                      (''owner'', PyStr ''ACME''),
                                      (''status'', PyStr ''decommissioned''),
                                      (''created_at'', PyFloat 500),
                                      (''updated_at'', PyFloat 500)]\<rparr>],
        documents = [], monitoring = [], assessments = []\<rparr>
       ''65f0000000000000000000aa''
       \<lparr>facility_id = ''65f0000000000000000000aa'', timestamp = 990,
        readings = [(''pore-pressure'', PyFloat 10)]\<rparr>
     = Inr ([(''facility_id'', PyStr ''65f0000000000000000000aa''),
             (''timestamp'', PyFloat 990),
             (''readings'', PyDict [(''pore-pressure'', PyFloat 10)]),
             (''created_at'', PyFloat 1000),
             (''_id'', PyObjectId ''65f000000000000000000001''),
             (''id'', PyStr ''65f000000000000000000001'')],
            \<lparr>facilities = [\<lparr>doc_id = ''65f0000000000000000000aa'',
                        doc_fields = [(''name'', PyStr ''North dam''),
                                      (''location'', PyStr ''Pit 3''),
                                      (''type'', PyStr ''tailings-dam''),
                                      (''owner'', PyStr ''ACME''),
                                      (''status'', PyStr ''decommissioned''),
                                      (''created_at'', PyFloat 500),
                                      (''updated_at'', PyFloat 500)]\<rparr>],
             documents = [],
             monitoring = [\<lparr>doc_id = ''65f000000000000000000001'',
                            doc_fields = [(''facility_id'', PyStr ''65f0000000000000000000aa''),
                                          (''timestamp'', PyFloat 990),
                                          (''readings'', PyDict [(''pore-pressure'', PyFloat 10)]),
                                          (''created_at'', PyFloat 1000)]\<rparr>],
             assessments = []\<rparr>)"
  by (simp add: add_monitoring_data_def insert_one_def except_Exception_def spec_active_facility_def)

text \<open>
  C4, amended. \<open>add_monitoring_data\<close> consults no facility. For an identifier that names no
  active facility (a decommissioned one, or none at all), when the store accepts the
  insert the call succeeds and the monitoring collection gains the reading under that
  identifier; the only rejection is the store's own exception, answered with status 400
  and the exception's text; the facilities collection is neither read nor changed, so the
  outcome is the same whatever it holds.
\<close>

theorem add_monitoring_data_consults_no_facility:
  "\<not> spec_active_facility db path_id \<Longrightarrow>
     (\<exists>resp db'. add_monitoring_data str_exc (Inr oid) now db path_id data = Inr (resp, db') \<and>
        facilities db' = facilities db \<and>
        butlast (monitoring db') = monitoring db \<and>
        doc_id (last (monitoring db')) = oid \<and>
        map_of (doc_fields (last (monitoring db'))) ''facility_id'' = Some (PyStr path_id)) \<and>
     add_monitoring_data str_exc (Inl e) now db path_id data = Inl (HTTPException 400 (str_exc e)) \<and>
     (\<forall>err. add_monitoring_data str_exc reply now db path_id data = Inl err \<longrightarrow>
        (\<exists>e'. reply = Inl e' \<and> err = HTTPException 400 (str_exc e'))) \<and>
     add_monitoring_data str_exc reply now (db\<lparr>facilities := fs\<rparr>) path_id data
       = map_sum id (\<lambda>(resp, db'). (resp, db'\<lparr>facilities := fs\<rparr>))
           (add_monitoring_data str_exc reply now db path_id data)"
proof (intro conjI allI impI)
  show "\<exists>resp db'. add_monitoring_data str_exc (Inr oid) now db path_id data = Inr (resp, db') \<and>
        facilities db' = facilities db \<and>
        butlast (monitoring db') = monitoring db \<and>
        doc_id (last (monitoring db')) = oid \<and>
        map_of (doc_fields (last (monitoring db'))) ''facility_id'' = Some (PyStr path_id)"
    by (simp add: add_monitoring_data_accepted)
  show "add_monitoring_data str_exc (Inl e) now db path_id data = Inl (HTTPException 400 (str_exc e))"
    by (rule add_monitoring_data_refused)
  show "\<exists>e'. reply = Inl e' \<and> err = HTTPException 400 (str_exc e')"
    if "add_monitoring_data str_exc reply now db path_id data = Inl err" for err
    using that by (rule add_monitoring_data_raises)
  show "add_monitoring_data str_exc reply now (db\<lparr>facilities := fs\<rparr>) path_id data
       = map_sum id (\<lambda>(resp, db'). (resp, db'\<lparr>facilities := fs\<rparr>))
           (add_monitoring_data str_exc reply now db path_id data)"
    by (cases reply) (simp_all add: add_monitoring_data_refused add_monitoring_data_accepted)
qed

theorem add_monitoring_data_consults_no_facility_witness:
  "\<not> spec_active_facility \<lparr>facilities = [\<lparr>doc_id = ''65f0000000000000000000aa'',
                        doc_fields = [(''name'', PyStr ''North dam''),
                                      (''location'', PyStr ''Pit 3''),
                                      (''type'', PyStr ''tailings-dam''),
                                      (''owner'', PyStr ''ACME''),
                                      (''status'', PyStr ''decommissioned''),
                                      (''created_at'', PyFloat 500),
                                      (''updated_at'', PyFloat 500)]\<rparr>],
        documents = [], monitoring = [], assessments = []\<rparr> ''65f0000000000000000000aa'' \<and>
   (\<exists>resp db'. add_monitoring_data (\<lambda>e. ''error'') (Inr ''65f000000000000000000001'') 1000
        \<lparr>facilities = [\<lparr>doc_id = ''65f0000000000000000000aa'',
                        doc_fields = [(''name'', PyStr ''North dam''),
                                      (''location'', PyStr ''Pit 3''),
                                      (''type'', PyStr ''tailings-dam''),
                                      (''owner'', PyStr ''ACME''),
                                      (''status'', PyStr ''decommissioned''),
                                      (''created_at'', PyFloat 500),
                                      (''updated_at'', PyFloat 500)]\<rparr>],
        documents = [], monitoring = [], assessments = []\<rparr> ''65f0000000000000000000aa''
        \<lparr>facility_id = ''65f0000000000000000000aa'', timestamp = 990, readings = []\<rparr> = Inr (resp, db') \<and>
      facilities db' = facilities \<lparr>facilities = [\<lparr>doc_id = ''65f0000000000000000000aa'',
                        doc_fields = [(''name'', PyStr ''North dam''),
                                      (''location'', PyStr ''Pit 3''),
                                      (''type'', PyStr ''tailings-dam''),
                                      (''owner'', PyStr ''ACME''),
                                      (''status'', PyStr ''decommissioned''),
                                      (''created_at'', PyFloat 500),
                                      (''updated_at'', PyFloat 500)]\<rparr>],
        documents = [], monitoring = [], assessments = []\<rparr> \<and>
      map_of (doc_fields (last (monitoring db'))) ''facility_id'' = Some (PyStr ''65f0000000000000000000aa'')) \<and>
   add_monitoring_data (\<lambda>e. ''error'') (Inl (PyMongoError ''unreachable'')) 1000
        \<lparr>facilities = [\<lparr>doc_id = ''65f0000000000000000000aa'',
                        doc_fields = [(''name'', PyStr ''North dam''),
                                      (''location'', PyStr ''Pit 3''),
                                      (''type'', PyStr ''tailings-dam''),
                                      (''owner'', PyStr ''ACME''),
                                      (''status'', PyStr ''decommissioned''),
                                      (''created_at'', PyFloat 500),
                                      (''updated_at'', PyFloat 500)]\<rparr>],
        documents = [], monitoring = [], assessments = []\<rparr> ''65f0000000000000000000aa''
        \<lparr>facility_id = ''65f0000000000000000000aa'', timestamp = 990, readings = []\<rparr>
     = Inl (HTTPException 400 ''error'')"
proof -
  have h: "\<not> spec_active_facility \<lparr>facilities = [\<lparr>doc_id = ''65f0000000000000000000aa'',
                        doc_fields = [(''name'', PyStr ''North dam''),
                                      (''location'', PyStr ''Pit 3''),
                                      (''type'', PyStr ''tailings-dam''),
                                      (''owner'', PyStr ''ACME''),
                                      (''status'', PyStr ''decommissioned''),
                                      (''created_at'', PyFloat 500),
                                      (''updated_at'', PyFloat 500)]\<rparr>],
        documents = [], monitoring = [], assessments = []\<rparr> ''65f0000000000000000000aa''"
    by (simp add: spec_active_facility_def)
  note no_check = add_monitoring_data_consults_no_facility [OF h, of "\<lambda>e. ''error''"
      "''65f000000000000000000001''" 1000
      "\<lparr>facility_id = ''65f0000000000000000000aa'', timestamp = 990, readings = []\<rparr>"
      "PyMongoError ''unreachable''" "Inl (PyMongoError ''unreachable'')" "[]"]
  from no_check [THEN conjunct1] no_check [THEN conjunct2, THEN conjunct1] h
  show ?thesis by blast
qed

subsection \<open>Risk assessment\<close>

lemma assess_facility_risk_accepted:
  "assess_facility_risk str_exc (Inr oid) now1 now2 db path_id =
     Inr ([(''facility_id'', PyStr path_id),
           (''assessment_id'', PyStr (''assessment_'' @ str_int (py_int now1))),
           (''timestamp'', PyFloat now2),
           (''overall_risk_level'', PyStr ''medium''),
           (''risk_score'', PyInt 65),
           (''summary'', PyStr ''Automated risk assessment completed''),
           (''risk_factors'', PyList
              [PyDict [(''category'', PyStr ''structural''),
                       (''severity'', PyStr ''medium''),
                       (''description'', PyStr ''Foundation stability'')],
               PyDict [(''category'', PyStr ''environmental''),
                       (''severity'', PyStr ''low''),
                       (''description'', PyStr ''Water quality impact'')]]),
           (''recommendations'', PyList
              [PyStr ''Increase monitoring frequency'',
               PyStr ''Schedule structural inspection'',
               PyStr ''Review environmental controls'']),
           (''_id'', PyObjectId oid),
           (''id'', PyStr oid)],
          db\<lparr>assessments := assessments db @
             [\<lparr>doc_id = oid,
               doc_fields =
                 [(''facility_id'', PyStr path_id),
                  (''assessment_id'', PyStr (''assessment_'' @ str_int (py_int now1))),
                  (''timestamp'', PyFloat now2),
                  (''overall_risk_level'', PyStr ''medium''),
                  (''risk_score'', PyInt 65),
                  (''summary'', PyStr ''Automated risk assessment completed''),
                  (''risk_factors'', PyList
                     [PyDict [(''category'', PyStr ''structural''),
                              (''severity'', PyStr ''medium''),
                              (''description'', PyStr ''Foundation stability'')],
                      PyDict [(''category'', PyStr ''environmental''),
                              (''severity'', PyStr ''low''),
                              (''description'', PyStr ''Water quality impact'')]]),
                  (''recommendations'', PyList
                     [PyStr ''Increase monitoring frequency'',
                      PyStr ''Schedule structural inspection'',
                      PyStr ''Review environmental controls''])]\<rparr>]\<rparr>)"
  by (simp add: assess_facility_risk_def insert_one_def except_Exception_def)

lemma assess_facility_risk_refused:
  "assess_facility_risk str_exc (Inl e) now1 now2 db path_id = Inl (HTTPException 400 (str_exc e))"
  by (simp add: assess_facility_risk_def insert_one_def except_Exception_def)

lemma assess_facility_risk_returns:
  assumes "assess_facility_risk str_exc reply now1 now2 db path_id = Inr (a, db')"
  obtains oid where "reply = Inr oid" and
    "a = [(''facility_id'', PyStr path_id),
           (''assessment_id'', PyStr (''assessment_'' @ str_int (py_int now1))),
           (''timestamp'', PyFloat now2),
           (''overall_risk_level'', PyStr ''medium''),
           (''risk_score'', PyInt 65),
           (''summary'', PyStr ''Automated risk assessment completed''),
           (''risk_factors'', PyList
              [PyDict [(''category'', PyStr ''structural''),
                       (''severity'', PyStr ''medium''),
                       (''description'', PyStr ''Foundation stability'')],
               PyDict [(''category'', PyStr ''environmental''),
                       (''severity'', PyStr ''low''),
                       (''description'', PyStr ''Water quality impact'')]]),
           (''recommendations'', PyList
              [PyStr ''Increase monitoring frequency'',
               PyStr ''Schedule structural inspection'',
               PyStr ''Review environmental controls'']),
           (''_id'', PyObjectId oid),
           (''id'', PyStr oid)]"
proof (cases reply)
  case (Inl e)
  with assms show ?thesis by (simp add: assess_facility_risk_refused)
next
  case (Inr oid)
  with assms have "a = [(''facility_id'', PyStr path_id),
           (''assessment_id'', PyStr (''assessment_'' @ str_int (py_int now1))),
           (''timestamp'', PyFloat now2),
           (''overall_risk_level'', PyStr ''medium''),
           (''risk_score'', PyInt 65),
           (''summary'', PyStr ''Automated risk assessment completed''),
           (''risk_factors'', PyList
              [PyDict [(''category'', PyStr ''structural''),
                       (''severity'', PyStr ''medium''),
                       (''description'', PyStr ''Foundation stability'')],
               PyDict [(''category'', PyStr ''environmental''),
                       (''severity'', PyStr ''low''),
                       (''description'', PyStr ''Water quality impact'')]]),
           (''recommendations'', PyList
              [PyStr ''Increase monitoring frequency'',
               PyStr ''Schedule structural inspection'',
               PyStr ''Review environmental controls'']),
           (''_id'', PyObjectId oid),
           (''id'', PyStr oid)]"
    by (simp add: assess_facility_risk_accepted)
  with Inr show ?thesis by (rule that)
qed

text \<open>
  C5. Whatever the facility identifier and whatever the store holds, the risk-assessment
  handler returns an assessment as soon as the store accepts the insert, and every
  assessment it returns has risk level \<^verbatim>\<open>medium\<close>, risk score 65 and the two constant
  lists of risk factors and recommendations.
\<close>

theorem assess_facility_risk_static_payload:
  "(\<exists>a db'. assess_facility_risk str_exc (Inr oid) now1 now2 db path_id = Inr (a, db')) \<and>
   (\<forall>a db'. assess_facility_risk str_exc reply now1 now2 db path_id = Inr (a, db') \<longrightarrow>
      map_of a ''overall_risk_level'' = Some (PyStr ''medium'') \<and>
      map_of a ''risk_score'' = Some (PyInt 65) \<and>
      map_of a ''risk_factors'' = Some (PyList
         [PyDict [(''category'', PyStr ''structural''),
                  (''severity'', PyStr ''medium''),
                  (''description'', PyStr ''Foundation stability'')],
          PyDict [(''category'', PyStr ''environmental''),
                  (''severity'', PyStr ''low''),
                  (''description'', PyStr ''Water quality impact'')]]) \<and>
      map_of a ''recommendations'' = Some (PyList
         [PyStr ''Increase monitoring frequency'',
          PyStr ''Schedule structural inspection'',
          PyStr ''Review environmental controls'']))"
proof (intro conjI allI impI)
  show "\<exists>a db'. assess_facility_risk str_exc (Inr oid) now1 now2 db path_id = Inr (a, db')"
    unfolding assess_facility_risk_accepted by blast
next
  fix a db'
  assume "assess_facility_risk str_exc reply now1 now2 db path_id = Inr (a, db')"
  then obtain oid' where a: "a = [(''facility_id'', PyStr path_id),
           (''assessment_id'', PyStr (''assessment_'' @ str_int (py_int now1))),
           (''timestamp'', PyFloat now2),
           (''overall_risk_level'', PyStr ''medium''),
           (''risk_score'', PyInt 65),
           (''summary'', PyStr ''Automated risk assessment completed''),
           (''risk_factors'', PyList
              [PyDict [(''category'', PyStr ''structural''),
                       (''severity'', PyStr ''medium''),
                       (''description'', PyStr ''Foundation stability'')],
               PyDict [(''category'', PyStr ''environmental''),
                       (''severity'', PyStr ''low''),
                       (''description'', PyStr ''Water quality impact'')]]),
           (''recommendations'', PyList
              [PyStr ''Increase monitoring frequency'',
               PyStr ''Schedule structural inspection'',
               PyStr ''Review environmental controls'']),
           (''_id'', PyObjectId oid'),
           (''id'', PyStr oid')]"
    by (rule assess_facility_risk_returns)
  show "map_of a ''overall_risk_level'' = Some (PyStr ''medium'')"
    unfolding a by simp
  show "map_of a ''risk_score'' = Some (PyInt 65)"
    unfolding a by simp
  show "map_of a ''risk_factors'' = Some (PyList
         [PyDict [(''category'', PyStr ''structural''),
                  (''severity'', PyStr ''medium''),
                  (''description'', PyStr ''Foundation stability'')],
          PyDict [(''category'', PyStr ''environmental''),
                  (''severity'', PyStr ''low''),
                  (''description'', PyStr ''Water quality impact'')]])"
    unfolding a by simp
  show "map_of a ''recommendations'' = Some (PyList
         [PyStr ''Increase monitoring frequency'',
          PyStr ''Schedule structural inspection'',
          PyStr ''Review environmental controls''])"
    unfolding a by simp
qed

theorem assess_facility_risk_static_payload_witness:
  "\<exists>a db'. assess_facility_risk (\<lambda>e. ''error'') (Inr ''65f000000000000000000001'') 1000 1000
        \<lparr>facilities = [], documents = [], monitoring = [], assessments = []\<rparr> ''facility-A'' = Inr (a, db') \<and>
      map_of a ''overall_risk_level'' = Some (PyStr ''medium'') \<and>
      map_of a ''risk_score'' = Some (PyInt 65)"
  using assess_facility_risk_static_payload [of "\<lambda>e. ''error''" "''65f000000000000000000001''" 1000 1000
      "\<lparr>facilities = [], documents = [], monitoring = [], assessments = []\<rparr>" "''facility-A''"
      "Inr ''65f000000000000000000001''"]
  by blast

text \<open>
  C7. Every assessment the handler returns is band-consistent: its score is an integer
  between 0 and 100, and its level is the band the specification derives from that score
  (low below 34, medium from 34 to 66, high above 66).
\<close>

theorem assess_facility_risk_band_consistent:
  "assess_facility_risk str_exc reply now1 now2 db path_id = Inr (a, db') \<Longrightarrow>
     (\<exists>score. map_of a ''risk_score'' = Some (PyInt score) \<and> 0 \<le> score \<and> score \<le> 100 \<and>
        map_of a ''overall_risk_level'' = Some (PyStr (spec_risk_band score)))"
proof -
  assume "assess_facility_risk str_exc reply now1 now2 db path_id = Inr (a, db')"
  then obtain oid where a: "a = [(''facility_id'', PyStr path_id),
           (''assessment_id'', PyStr (''assessment_'' @ str_int (py_int now1))),
           (''timestamp'', PyFloat now2),
           (''overall_risk_level'', PyStr ''medium''),
           (''risk_score'', PyInt 65),
           (''summary'', PyStr ''Automated risk assessment completed''),
           (''risk_factors'', PyList
              [PyDict [(''category'', PyStr ''structural''),
                       (''severity'', PyStr ''medium''),
                       (''description'', PyStr ''Foundation stability'')],
               PyDict [(''category'', PyStr ''environmental''),
                       (''severity'', PyStr ''low''),
                       (''description'', PyStr ''Water quality impact'')]]),
           (''recommendations'', PyList
              [PyStr ''Increase monitoring frequency'',
               PyStr ''Schedule structural inspection'',
               PyStr ''Review environmental controls'']),
           (''_id'', PyObjectId oid),
           (''id'', PyStr oid)]"
    by (rule assess_facility_risk_returns)
  have score: "map_of a ''risk_score'' = Some (PyInt 65)"
    unfolding a by simp
  have level: "map_of a ''overall_risk_level'' = Some (PyStr ''medium'')"
    unfolding a by simp
  have band: "spec_risk_band 65 = ''medium''"
    by (simp add: spec_risk_band_def)
  from score level band show ?thesis by simp
qed

theorem assess_facility_risk_band_consistent_witness:
  "\<exists>a db' score. assess_facility_risk (\<lambda>e. ''error'') (Inr ''65f000000000000000000001'') 1000 1000
        \<lparr>facilities = [], documents = [], monitoring = [], assessments = []\<rparr> ''facility-A'' = Inr (a, db') \<and>
      map_of a ''risk_score'' = Some (PyInt score) \<and> 0 \<le> score \<and> score \<le> 100 \<and>
      map_of a ''overall_risk_level'' = Some (PyStr (spec_risk_band score))"
proof -
  obtain a db' where run: "assess_facility_risk (\<lambda>e. ''error'') (Inr ''65f000000000000000000001'') 1000 1000
        \<lparr>facilities = [], documents = [], monitoring = [], assessments = []\<rparr> ''facility-A'' = Inr (a, db')"
    unfolding assess_facility_risk_accepted by blast
  from assess_facility_risk_band_consistent [OF run] run show ?thesis by blast
qed

text \<open>
  C3, as stated, fails: two assessments of the same facility over the same facilities and
  readings, taken at clock readings 100 and 200, differ in \<^verbatim>\<open>assessment_id\<close>, so they
  differ in more than the \<^verbatim>\<open>timestamp\<close> field.
\<close>

theorem assessment_id_follows_the_clock:
  "\<not> isl (assess_facility_risk (\<lambda>e. ''error'') (Inr ''65f000000000000000000001'') 100 100
        \<lparr>facilities = [\<lparr>doc_id = ''65f0000000000000000000aa'',
                        doc_fields = [(''name'', PyStr ''North dam''),
                                      (''location'', PyStr ''Pit 3''),
                                      (''type'', PyStr ''tailings-dam''),
                                      (''owner'', PyStr ''ACME''),
                                      (''status'', PyStr ''active''),
                                      (''created_at'', PyFloat 500),
                                      (''updated_at'', PyFloat 500)]\<rparr>],
        documents = [], monitoring = [], assessments = []\<rparr> ''65f0000000000000000000aa'') \<and>
   map_of (fst (projr (assess_facility_risk (\<lambda>e. ''error'') (Inr ''65f000000000000000000001'') 100 100
        \<lparr>facilities = [\<lparr>doc_id = ''65f0000000000000000000aa'',
                        doc_fields = [(''name'', PyStr ''North dam''),
                                      (''location'', PyStr ''Pit 3''),
                                      (''type'', PyStr ''tailings-dam''),
                                      (''owner'', PyStr ''ACME''),
                                      (''status'', PyStr ''active''),
                                      (''created_at'', PyFloat 500),
                                      (''updated_at'', PyFloat 500)]\<rparr>],
        documents = [], monitoring = [], assessments = []\<rparr> ''65f0000000000000000000aa''))) ''assessment_id'' = Some (PyStr ''assessment_100'') \<and>
   facilities (snd (projr (assess_facility_risk (\<lambda>e. ''error'') (Inr ''65f000000000000000000001'') 100 100
        \<lparr>facilities = [\<lparr>doc_id = ''65f0000000000000000000aa'',
                        doc_fields = [(''name'', PyStr ''North dam''),
                                      (''location'', PyStr ''Pit 3''),
                                      (''type'', PyStr ''tailings-dam''),
                                      (''owner'', PyStr ''ACME''),
                                      (''status'', PyStr ''active''),
                                      (''created_at'', PyFloat 500),
                                      (''updated_at'', PyFloat 500)]\<rparr>],
        documents = [], monitoring = [], assessments = []\<rparr> ''65f0000000000000000000aa''))) = facilities \<lparr>facilities = [\<lparr>doc_id = ''65f0000000000000000000aa'',
                        doc_fields = [(''name'', PyStr ''North dam''),
                                      (''location'', PyStr ''Pit 3''),
                                      (''type'', PyStr ''tailings-dam''),
                                      (''owner'', PyStr ''ACME''),
                                      (''status'', PyStr ''active''),
                                      (''created_at'', PyFloat 500),
                                      (''updated_at'', PyFloat 500)]\<rparr>],
        documents = [], monitoring = [], assessments = []\<rparr> \<and>
   monitoring (snd (projr (assess_facility_risk (\<lambda>e. ''error'') (Inr ''65f000000000000000000001'') 100 100
        \<lparr>facilities = [\<lparr>doc_id = ''65f0000000000000000000aa'',
                        doc_fields = [(''name'', PyStr ''North dam''),
                                      (''location'', PyStr ''Pit 3''),
                                      (''type'', PyStr ''tailings-dam''),
                                      (''owner'', PyStr ''ACME''),
                                      (''status'', PyStr ''active''),
                                      (''created_at'', PyFloat 500),
                                      (''updated_at'', PyFloat 500)]\<rparr>],
        documents = [], monitoring = [], assessments = []\<rparr> ''65f0000000000000000000aa''))) = monitoring \<lparr>facilities = [\<lparr>doc_id = ''65f0000000000000000000aa'',
                        doc_fields = [(''name'', PyStr ''North dam''),
                                      (''location'', PyStr ''Pit 3''),
                                      (''type'', PyStr ''tailings-dam''),
                                      (''owner'', PyStr ''ACME''),
                                      (''status'', PyStr ''active''),
                                      (''created_at'', PyFloat 500),
                                      (''updated_at'', PyFloat 500)]\<rparr>],
        documents = [], monitoring = [], assessments = []\<rparr> \<and>
   \<not> isl (assess_facility_risk (\<lambda>e. ''error'') (Inr ''65f000000000000000000002'') 200 200
        (snd (projr (assess_facility_risk (\<lambda>e. ''error'') (Inr ''65f000000000000000000001'') 100 100
        \<lparr>facilities = [\<lparr>doc_id = ''65f0000000000000000000aa'',
                        doc_fields = [(''name'', PyStr ''North dam''),
                                      (''location'', PyStr ''Pit 3''),
                                      (''type'', PyStr ''tailings-dam''),
                                      (''owner'', PyStr ''ACME''),
                                      (''status'', PyStr ''active''),
                                      (''created_at'', PyFloat 500),
                                      (''updated_at'', PyFloat 500)]\<rparr>],
        documents = [], monitoring = [], assessments = []\<rparr> ''65f0000000000000000000aa''))) ''65f0000000000000000000aa'') \<and>
   map_of (fst (projr (assess_facility_risk (\<lambda>e. ''error'') (Inr ''65f000000000000000000002'') 200 200
        (snd (projr (assess_facility_risk (\<lambda>e. ''error'') (Inr ''65f000000000000000000001'') 100 100
        \<lparr>facilities = [\<lparr>doc_id = ''65f0000000000000000000aa'',
                        doc_fields = [(''name'', PyStr ''North dam''),
                                      (''location'', PyStr ''Pit 3''),
                                      (''type'', PyStr ''tailings-dam''),
                                      (''owner'', PyStr ''ACME''),
                                      (''status'', PyStr ''active''),
                                      (''created_at'', PyFloat 500),
                                      (''updated_at'', PyFloat 500)]\<rparr>],
        documents = [], monitoring = [], assessments = []\<rparr> ''65f0000000000000000000aa''))) ''65f0000000000000000000aa''))) ''assessment_id'' = Some (PyStr ''assessment_200'') \<and>
   AList.delete ''timestamp'' (fst (projr (assess_facility_risk (\<lambda>e. ''error'') (Inr ''65f000000000000000000001'') 100 100
        \<lparr>facilities = [\<lparr>doc_id = ''65f0000000000000000000aa'',
                        doc_fields = [(''name'', PyStr ''North dam''),
                                      (''location'', PyStr ''Pit 3''),
                                      (''type'', PyStr ''tailings-dam''),
                                      (''owner'', PyStr ''ACME''),
                                      (''status'', PyStr ''active''),
                                      (''created_at'', PyFloat 500),
                                      (''updated_at'', PyFloat 500)]\<rparr>],
        documents = [], monitoring = [], assessments = []\<rparr> ''65f0000000000000000000aa''))) \<noteq> AList.delete ''timestamp'' (fst (projr (assess_facility_risk (\<lambda>e. ''error'') (Inr ''65f000000000000000000002'') 200 200
        (snd (projr (assess_facility_risk (\<lambda>e. ''error'') (Inr ''65f000000000000000000001'') 100 100
        \<lparr>facilities = [\<lparr>doc_id = ''65f0000000000000000000aa'',
                        doc_fields = [(''name'', PyStr ''North dam''),
                                      (''location'', PyStr ''Pit 3''),
                                      (''type'', PyStr ''tailings-dam''),
                                      (''owner'', PyStr ''ACME''),
                                      (''status'', PyStr ''active''),
                                      (''created_at'', PyFloat 500),
                                      (''updated_at'', PyFloat 500)]\<rparr>],
        documents = [], monitoring = [], assessments = []\<rparr> ''65f0000000000000000000aa''))) ''65f0000000000000000000aa'')))"
  by (simp add: assess_facility_risk_accepted str_int_def py_int_def str_nat.simps)

text \<open>
  C3, amended. Any two assessments the handler returns for the same facility identifier
  have the same keys in the same order and the same entry at every key other than
  \<^verbatim>\<open>assessment_id\<close>, \<^verbatim>\<open>timestamp\<close>, \<^verbatim>\<open>_id\<close> and \<^verbatim>\<open>id\<close>; the \<^verbatim>\<open>assessment_id\<close> is the
  same when the clock showed the same whole second.
\<close>

theorem assess_facility_risk_same_but_clock_and_ids:
  "assess_facility_risk str_exc reply1 now1 now2 db1 path_id = Inr (a1, db1') \<Longrightarrow>
   assess_facility_risk str_exc' reply2 now3 now4 db2 path_id = Inr (a2, db2') \<Longrightarrow>
     map fst a1 = map fst a2 \<and>
     (\<forall>k. k \<notin> {''assessment_id'', ''timestamp'', ''_id'', ''id''} \<longrightarrow> map_of a1 k = map_of a2 k) \<and>
     (py_int now1 = py_int now3 \<longrightarrow> map_of a1 ''assessment_id'' = map_of a2 ''assessment_id'')"
proof -
  assume "assess_facility_risk str_exc reply1 now1 now2 db1 path_id = Inr (a1, db1')"
  then obtain oid1 where a1: "a1 = [(''facility_id'', PyStr path_id),
           (''assessment_id'', PyStr (''assessment_'' @ str_int (py_int now1))),
           (''timestamp'', PyFloat now2),
           (''overall_risk_level'', PyStr ''medium''),
           (''risk_score'', PyInt 65),
           (''summary'', PyStr ''Automated risk assessment completed''),
           (''risk_factors'', PyList
              [PyDict [(''category'', PyStr ''structural''),
                       (''severity'', PyStr ''medium''),
                       (''description'', PyStr ''Foundation stability'')],
               PyDict [(''category'', PyStr ''environmental''),
                       (''severity'', PyStr ''low''),
                       (''description'', PyStr ''Water quality impact'')]]),
           (''recommendations'', PyList
              [PyStr ''Increase monitoring frequency'',
               PyStr ''Schedule structural inspection'',
               PyStr ''Review environmental controls'']),
           (''_id'', PyObjectId oid1),
           (''id'', PyStr oid1)]"
    by (rule assess_facility_risk_returns)
  assume "assess_facility_risk str_exc' reply2 now3 now4 db2 path_id = Inr (a2, db2')"
  then obtain oid2 where a2: "a2 = [(''facility_id'', PyStr path_id),
           (''assessment_id'', PyStr (''assessment_'' @ str_int (py_int now3))),
           (''timestamp'', PyFloat now4),
           (''overall_risk_level'', PyStr ''medium''),
           (''risk_score'', PyInt 65),
           (''summary'', PyStr ''Automated risk assessment completed''),
           (''risk_factors'', PyList
              [PyDict [(''category'', PyStr ''structural''),
                       (''severity'', PyStr ''medium''),
                       (''description'', PyStr ''Foundation stability'')],
               PyDict [(''category'', PyStr ''environmental''),
                       (''severity'', PyStr ''low''),
                       (''description'', PyStr ''Water quality impact'')]]),
           (''recommendations'', PyList
              [PyStr ''Increase monitoring frequency'',
               PyStr ''Schedule structural inspection'',
               PyStr ''Review environmental controls'']),
           (''_id'', PyObjectId oid2),
           (''id'', PyStr oid2)]"
    by (rule assess_facility_risk_returns)
  have keys: "map fst a1 = map fst a2"
    unfolding a1 a2 by simp
  have rest: "map_of a1 k = map_of a2 k"
    if "k \<notin> {''assessment_id'', ''timestamp'', ''_id'', ''id''}" for k
    using that unfolding a1 a2 by simp
  have ident: "map_of a1 ''assessment_id'' = map_of a2 ''assessment_id''"
    if "py_int now1 = py_int now3"
    using that unfolding a1 a2 by simp
  from keys rest ident show ?thesis by blast
qed

theorem assess_facility_risk_same_but_clock_and_ids_witness:
  "\<exists>a1 db1 a2 db2.
     assess_facility_risk (\<lambda>e. ''error'') (Inr ''65f000000000000000000001'') 100 100
        \<lparr>facilities = [], documents = [], monitoring = [], assessments = []\<rparr> ''facility-A'' = Inr (a1, db1) \<and>
     assess_facility_risk (\<lambda>e. ''error'') (Inr ''65f000000000000000000002'') 200 200 db1 ''facility-A''
        = Inr (a2, db2) \<and>
     map fst a1 = map fst a2 \<and>
     map_of a1 ''risk_score'' = map_of a2 ''risk_score'' \<and>
     map_of a1 ''risk_factors'' = map_of a2 ''risk_factors''"
proof -
  obtain a1 db1 where run1:
    "assess_facility_risk (\<lambda>e. ''error'') (Inr ''65f000000000000000000001'') 100 100
        \<lparr>facilities = [], documents = [], monitoring = [], assessments = []\<rparr> ''facility-A'' = Inr (a1, db1)"
    unfolding assess_facility_risk_accepted by blast
  obtain a2 db2 where run2:
    "assess_facility_risk (\<lambda>e. ''error'') (Inr ''65f000000000000000000002'') 200 200 db1 ''facility-A''
        = Inr (a2, db2)"
    unfolding assess_facility_risk_accepted by blast
  have k1: "''risk_score'' \<notin> {''assessment_id'', ''timestamp'', ''_id'', ''id''}" by simp
  have k2: "''risk_factors'' \<notin> {''assessment_id'', ''timestamp'', ''_id'', ''id''}" by simp
  note agree = assess_facility_risk_same_but_clock_and_ids [OF run1 run2]
  have keys: "map fst a1 = map fst a2"
    by (rule agree [THEN conjunct1])
  have score: "map_of a1 ''risk_score'' = map_of a2 ''risk_score''"
    by (rule agree [THEN conjunct2, THEN conjunct1, rule_format, OF k1])
  have factors: "map_of a1 ''risk_factors'' = map_of a2 ''risk_factors''"
    by (rule agree [THEN conjunct2, THEN conjunct1, rule_format, OF k2])
  from run1 run2 keys score factors show ?thesis by blast
qed




subsection \<open>Lookup by identifier\<close>

lemma find_one_no_match:
  "oid \<notin> doc_id ` set coll \<Longrightarrow> find_one None (id_query oid) coll = Inr None"
  by (induction coll) (auto simp: find_one_def id_query_def to_dict_def)

lemma except_Exception_status:
  "except_Exception str_exc body \<noteq> Inl (HTTPException 404 detail)"
  by (cases body) (simp_all add: except_Exception_def)

text \<open>
  C9. When the identifier parses and no stored facility (or document) has it, the lookup
  handler answers with status 400, not 404: the \<^verbatim>\<open>HTTPException\<close> with status 404 raised in
  the \<^verbatim>\<open>try\<close> block is caught by the handler's own \<^verbatim>\<open>except Exception\<close> and raised again
  with status 400 and, as detail, the string of the 404 exception. Neither handler ever
  answers with status 404.
\<close>

theorem not_found_is_answered_400:
  "ObjectId path_id = Inr oid \<Longrightarrow>
     (oid \<notin> doc_id ` set (facilities db) \<longrightarrow>
        get_facility str_exc ObjectId None db path_id
          = Inl (HTTPException 400 (str_exc (HTTPException 404 ''Facility not found'')))) \<and>
     (oid \<notin> doc_id ` set (documents db) \<longrightarrow>
        get_document str_exc ObjectId None db path_id
          = Inl (HTTPException 400 (str_exc (HTTPException 404 ''Document not found'')))) \<and>
     get_facility str_exc ObjectId fault db path_id \<noteq> Inl (HTTPException 404 detail) \<and>
     get_document str_exc ObjectId fault db path_id \<noteq> Inl (HTTPException 404 detail)"
proof (intro conjI impI)
  assume parsed: "ObjectId path_id = Inr oid"
  show "get_facility str_exc ObjectId None db path_id
          = Inl (HTTPException 400 (str_exc (HTTPException 404 ''Facility not found'')))"
    if "oid \<notin> doc_id ` set (facilities db)"
    using parsed that by (simp add: get_facility_def find_one_no_match except_Exception_def)
  show "get_document str_exc ObjectId None db path_id
          = Inl (HTTPException 400 (str_exc (HTTPException 404 ''Document not found'')))"
    if "oid \<notin> doc_id ` set (documents db)"
    using parsed that by (simp add: get_document_def find_one_no_match except_Exception_def)
  show "get_facility str_exc ObjectId fault db path_id \<noteq> Inl (HTTPException 404 detail)"
    unfolding get_facility_def by (rule except_Exception_status)
  show "get_document str_exc ObjectId fault db path_id \<noteq> Inl (HTTPException 404 detail)"
    unfolding get_document_def by (rule except_Exception_status)
qed

theorem not_found_is_answered_400_witness:
  "(\<lambda>s. if length s = 24 then Inr s else Inl (InvalidId s)) ''65f0000000000000000000cc'' = Inr ''65f0000000000000000000cc'' \<and>
   ''65f0000000000000000000cc'' \<notin> doc_id ` set (facilities \<lparr>facilities = [\<lparr>doc_id = ''65f0000000000000000000aa'',
                     doc_fields = [(''name'', PyStr ''North dam''),
                                   (''status'', PyStr ''active'')]\<rparr>],
      documents = [\<lparr>doc_id = ''65f0000000000000000000bb'',
                    doc_fields = [(''name'', PyStr ''Permit''),
                                  (''facility_id'', PyStr ''65f0000000000000000000aa'')]\<rparr>],
      monitoring = [], assessments = []\<rparr>) \<and>
   ''65f0000000000000000000cc'' \<notin> doc_id ` set (documents \<lparr>facilities = [\<lparr>doc_id = ''65f0000000000000000000aa'',
                     doc_fields = [(''name'', PyStr ''North dam''),
                                   (''status'', PyStr ''active'')]\<rparr>],
      documents = [\<lparr>doc_id = ''65f0000000000000000000bb'',
                    doc_fields = [(''name'', PyStr ''Permit''),
                                  (''facility_id'', PyStr ''65f0000000000000000000aa'')]\<rparr>],
      monitoring = [], assessments = []\<rparr>) \<and>
   get_facility (\<lambda>e. case e of HTTPException status detail \<Rightarrow> detail | InvalidId msg \<Rightarrow> msg | PyMongoError msg \<Rightarrow> msg) (\<lambda>s. if length s = 24 then Inr s else Inl (InvalidId s)) None \<lparr>facilities = [\<lparr>doc_id = ''65f0000000000000000000aa'',
                     doc_fields = [(''name'', PyStr ''North dam''),
                                   (''status'', PyStr ''active'')]\<rparr>],
      documents = [\<lparr>doc_id = ''65f0000000000000000000bb'',
                    doc_fields = [(''name'', PyStr ''Permit''),
                                  (''facility_id'', PyStr ''65f0000000000000000000aa'')]\<rparr>],
      monitoring = [], assessments = []\<rparr> ''65f0000000000000000000cc''
     = Inl (HTTPException 400 ''Facility not found'') \<and>
   get_document (\<lambda>e. case e of HTTPException status detail \<Rightarrow> detail | InvalidId msg \<Rightarrow> msg | PyMongoError msg \<Rightarrow> msg) (\<lambda>s. if length s = 24 then Inr s else Inl (InvalidId s)) None \<lparr>facilities = [\<lparr>doc_id = ''65f0000000000000000000aa'',
                     doc_fields = [(''name'', PyStr ''North dam''),
                                   (''status'', PyStr ''active'')]\<rparr>],
      documents = [\<lparr>doc_id = ''65f0000000000000000000bb'',
                    doc_fields = [(''name'', PyStr ''Permit''),
                                  (''facility_id'', PyStr ''65f0000000000000000000aa'')]\<rparr>],
      monitoring = [], assessments = []\<rparr> ''65f0000000000000000000cc''
     = Inl (HTTPException 400 ''Document not found'')"
proof -
  have parsed: "(\<lambda>s. if length s = 24 then Inr s else Inl (InvalidId s)) ''65f0000000000000000000cc'' = Inr ''65f0000000000000000000cc''"
    by simp
  have no_facility: "''65f0000000000000000000cc'' \<notin> doc_id ` set (facilities \<lparr>facilities = [\<lparr>doc_id = ''65f0000000000000000000aa'',
                     doc_fields = [(''name'', PyStr ''North dam''),
                                   (''status'', PyStr ''active'')]\<rparr>],
      documents = [\<lparr>doc_id = ''65f0000000000000000000bb'',
                    doc_fields = [(''name'', PyStr ''Permit''),
                                  (''facility_id'', PyStr ''65f0000000000000000000aa'')]\<rparr>],
      monitoring = [], assessments = []\<rparr>)"
    by simp
  have no_document: "''65f0000000000000000000cc'' \<notin> doc_id ` set (documents \<lparr>facilities = [\<lparr>doc_id = ''65f0000000000000000000aa'',
                     doc_fields = [(''name'', PyStr ''North dam''),
                                   (''status'', PyStr ''active'')]\<rparr>],
      documents = [\<lparr>doc_id = ''65f0000000000000000000bb'',
                    doc_fields = [(''name'', PyStr ''Permit''),
                                  (''facility_id'', PyStr ''65f0000000000000000000aa'')]\<rparr>],
      monitoring = [], assessments = []\<rparr>)"
    by simp
  note answered = not_found_is_answered_400 [of "(\<lambda>s. if length s = 24 then Inr s else Inl (InvalidId s))" "''65f0000000000000000000cc''"
      "''65f0000000000000000000cc''" "\<lparr>facilities = [\<lparr>doc_id = ''65f0000000000000000000aa'',
                     doc_fields = [(''name'', PyStr ''North dam''),
                                   (''status'', PyStr ''active'')]\<rparr>],
      documents = [\<lparr>doc_id = ''65f0000000000000000000bb'',
                    doc_fields = [(''name'', PyStr ''Permit''),
                                  (''facility_id'', PyStr ''65f0000000000000000000aa'')]\<rparr>],
      monitoring = [], assessments = []\<rparr>" "(\<lambda>e. case e of HTTPException status detail \<Rightarrow> detail | InvalidId msg \<Rightarrow> msg | PyMongoError msg \<Rightarrow> msg)" None "''none''", OF parsed]
  from answered [THEN conjunct1, rule_format, OF no_facility]
  have facility: "get_facility (\<lambda>e. case e of HTTPException status detail \<Rightarrow> detail | InvalidId msg \<Rightarrow> msg | PyMongoError msg \<Rightarrow> msg) (\<lambda>s. if length s = 24 then Inr s else Inl (InvalidId s)) None \<lparr>facilities = [\<lparr>doc_id = ''65f0000000000000000000aa'',
                     doc_fields = [(''name'', PyStr ''North dam''),
                                   (''status'', PyStr ''active'')]\<rparr>],
      documents = [\<lparr>doc_id = ''65f0000000000000000000bb'',
                    doc_fields = [(''name'', PyStr ''Permit''),
                                  (''facility_id'', PyStr ''65f0000000000000000000aa'')]\<rparr>],
      monitoring = [], assessments = []\<rparr> ''65f0000000000000000000cc''
     = Inl (HTTPException 400 ''Facility not found'')"
    by simp
  from answered [THEN conjunct2, THEN conjunct1, rule_format, OF no_document]
  have document: "get_document (\<lambda>e. case e of HTTPException status detail \<Rightarrow> detail | InvalidId msg \<Rightarrow> msg | PyMongoError msg \<Rightarrow> msg) (\<lambda>s. if length s = 24 then Inr s else Inl (InvalidId s)) None \<lparr>facilities = [\<lparr>doc_id = ''65f0000000000000000000aa'',
                     doc_fields = [(''name'', PyStr ''North dam''),
                                   (''status'', PyStr ''active'')]\<rparr>],
      documents = [\<lparr>doc_id = ''65f0000000000000000000bb'',
                    doc_fields = [(''name'', PyStr ''Permit''),
                                  (''facility_id'', PyStr ''65f0000000000000000000aa'')]\<rparr>],
      monitoring = [], assessments = []\<rparr> ''65f0000000000000000000cc''
     = Inl (HTTPException 400 ''Document not found'')"
    by simp
  from parsed no_facility no_document facility document show ?thesis
    by (intro conjI)
qed

subsection \<open>Query of monitoring readings\<close>




end
